theory Spec2Isabelle
  imports Complex_Main
begin

section \<open>Python values and exceptions\<close>

text \<open>
  The gateway is Python. An exception is a value: a function of the source that can
  raise returns \<open>pyerr + 'a\<close>, with \<open>Inl\<close> for the raised exception. The message
  is kept because the reconnect logic stores \<open>str(e)\<close> in the health table.
\<close>

datatype exc_kind =
  OverflowError | TypeError | ValueError | AttributeError | InvalidOperation | DecimalOverflow
  | DriverError

datatype pyerr = PyExc exc_kind string

fun exc_msg :: "pyerr \<Rightarrow> string" where
  "exc_msg (PyExc k m) = m"

section \<open>Reconnect backoff (plc\_gateway\_server.py)\<close>

text \<open>
  Seconds and epoch times are Python floats; they are modelled as reals, so binary
  rounding is not part of the model. What is part of it is the one conversion of the
  source that can raise: \<open>RECONNECT_BASE * (2 ** k)\<close> multiplies a float by an
  exact Python integer, and to do so the interpreter converts the integer to a float.
  A power of two \<open>2 ** k\<close> is representable exactly as long as \<open>k < 1024\<close>; from
  \<open>k = 1024\<close> on the conversion raises OverflowError. Multiplying a float by a
  representable power of two is exact, or overflows to infinity, in which case
  \<open>min\<close> returns \<open>RECONNECT_MAX\<close> as it does on the reals.
\<close>

record gw_config =
  RECONNECT_BASE :: real
  RECONNECT_MAX :: real
  GATEWAY_MOCK_FAIL_RECONNECT :: bool
  GATEWAY_MOCK_PLC :: bool

definition default_config :: gw_config where
  "default_config = \<lparr>RECONNECT_BASE = 1, RECONNECT_MAX = 60,
     GATEWAY_MOCK_FAIL_RECONNECT = False, GATEWAY_MOCK_PLC = False\<rparr>"

definition float_of_pow2 :: "nat \<Rightarrow> pyerr + real" where
  "float_of_pow2 k =
     (if k < 1024 then Inr (2 ^ k)
      else Inl (PyExc OverflowError ''int too large to convert to float''))"

definition compute_backoff_delay :: "gw_config \<Rightarrow> int \<Rightarrow> pyerr + real" where
  "compute_backoff_delay cfg fail_count =
     (if fail_count \<le> 0 then Inr 0
      else case float_of_pow2 (nat (max 0 (fail_count - 1))) of
             Inl e \<Rightarrow> Inl e
           | Inr p \<Rightarrow> Inr (min (RECONNECT_BASE cfg * p) (RECONNECT_MAX cfg)))"

section \<open>PLC health table\<close>

text \<open>
  \<open>plc_health\<close> is a module-level dict with exactly the two keys below; every call
  site passes one of them, so the key is a datatype. Each entry is a dict whose key
  \<open>last_backoff\<close> is absent until a reconnect failure records it, hence the option.
  \<open>recent_errors\<close> is a \<open>deque(maxlen=10)\<close>.
\<close>

datatype plc_key = Compactlogix | Slc500

record plc_health_entry =
  ok :: bool
  last_success :: real
  last_error :: "string option"
  fail_count :: int
  recent_errors :: "(real \<times> string) list"
  next_attempt :: real
  last_backoff :: "real option"

type_synonym health_table = "plc_key \<Rightarrow> plc_health_entry"

definition initial_entry :: plc_health_entry where
  "initial_entry = \<lparr>ok = False, last_success = 0, last_error = None, fail_count = 0,
     recent_errors = [], next_attempt = 0, last_backoff = None\<rparr>"

definition initial_plc_health :: health_table where
  "initial_plc_health = (\<lambda>k. initial_entry)"

definition deque_append :: "'a list \<Rightarrow> 'a \<Rightarrow> 'a list" where
  "deque_append xs x = (let ys = xs @ [x] in drop (length ys - 10) ys)"

text \<open>
  The failure bookkeeping is written out three times in \<open>try_reconnect_helper\<close>
  (forced failure, recreate error, reconnect error) and once in the mock start-up
  of \<open>run_opcua_server\<close>, each time as the same statements: append to
  \<open>recent_errors\<close>, increment \<open>fail_count\<close>, compute the delay, set \<open>next_attempt\<close>
  and \<open>last_backoff\<close>. The metrics and log pushes between them are wrapped in
  \<open>try/except: pass\<close> and touch nothing of the table. The two clock readings are the
  two calls of \<open>time.time()\<close>. When \<open>compute_backoff_delay\<close> raises, the first two
  updates have already happened.
\<close>

definition record_failure ::
  "gw_config \<Rightarrow> plc_key \<Rightarrow> real \<Rightarrow> real \<Rightarrow> string \<Rightarrow> health_table \<Rightarrow> health_table \<times> pyerr option" where
  "record_failure cfg key t_err t_next msg H =
     (let h = H key;
          fc = fail_count h + 1;
          h1 = h\<lparr>recent_errors := deque_append (recent_errors h) (t_err, msg), fail_count := fc\<rparr>
      in case compute_backoff_delay cfg fc of
           Inl e \<Rightarrow> (H(key := h1), Some e)
         | Inr delay \<Rightarrow>
             (H(key := h1\<lparr>next_attempt := t_next + delay, last_backoff := Some delay\<rparr>), None))"

definition reset_backoff :: "plc_key \<Rightarrow> health_table \<Rightarrow> health_table" where
  "reset_backoff key H = H(key := (H key)\<lparr>fail_count := 0, next_attempt := 0\<rparr>)"

subsection \<open>Drivers\<close>

text \<open>
  A driver is an object of the PLC library. The helper reads its \<open>connected\<close>
  attribute, asks whether it has an \<open>open\<close> method and calls it; an exception of
  \<open>open()\<close> is swallowed, so all that matters is the \<open>connected\<close> flag afterwards
  (\<open>open_connects\<close>). The poller's variable may also hold \<open>None\<close>, for which
  \<open>getattr(driver, "connected", False)\<close> is False and \<open>hasattr(driver, "open")\<close> is
  False. The constructor \<open>driver_cls(ip)\<close> either raises or returns a driver.
\<close>

record driver =
  connected :: bool
  has_open :: bool
  open_connects :: bool

definition drv_connected :: "driver option \<Rightarrow> bool" where
  "drv_connected d = (case d of None \<Rightarrow> False | Some x \<Rightarrow> connected x)"

definition drv_has_open :: "driver option \<Rightarrow> bool" where
  "drv_has_open d = (case d of None \<Rightarrow> False | Some x \<Rightarrow> has_open x)"

definition drv_open :: "driver option \<Rightarrow> driver option" where
  "drv_open d = map_option (\<lambda>x. x\<lparr>connected := open_connects x\<rparr>) d"

text \<open>The readings of \<open>time.time()\<close> inside one call, one per call site.\<close>

record clock =
  t_now :: real
  t_forced_err :: real
  t_forced_next :: real
  t_recreate_err :: real
  t_recreate_next :: real
  t_outer_err :: real
  t_outer_next :: real

subsection \<open>try\_reconnect\_helper\<close>

text \<open>
  The result is the table as the call leaves it, and either the driver returned or
  the exception that leaves the function. The outer \<open>except\<close> handler itself runs
  the failure bookkeeping, so an exception inside it propagates to the caller.
\<close>

definition outer_handler ::
  "gw_config \<Rightarrow> clock \<Rightarrow> plc_key \<Rightarrow> driver option \<Rightarrow> pyerr \<Rightarrow> health_table
     \<Rightarrow> health_table \<times> (pyerr + driver option)" where
  "outer_handler cfg clk key drv e H =
     (case record_failure cfg key (t_outer_err clk) (t_outer_next clk)
             (''reconnect error: '' @ exc_msg e) H of
        (H', Some e') \<Rightarrow> (H', Inl e')
      | (H', None) \<Rightarrow> (H', Inr drv))"

definition recreate ::
  "gw_config \<Rightarrow> clock \<Rightarrow> plc_key \<Rightarrow> driver option \<Rightarrow> (pyerr + driver) \<Rightarrow> health_table
     \<Rightarrow> health_table \<times> (pyerr + driver option)" where
  "recreate cfg clk key drv made H =
     (case made of
        Inr newdrv0 \<Rightarrow>
          (let newdrv = (if has_open newdrv0 then drv_open (Some newdrv0) else Some newdrv0)
           in if drv_connected newdrv then (reset_backoff key H, Inr newdrv)
              else (H, Inr newdrv))
      | Inl e \<Rightarrow>
          (case record_failure cfg key (t_recreate_err clk) (t_recreate_next clk)
                  (''recreate error: '' @ exc_msg e) H of
             (H', Some e') \<Rightarrow> outer_handler cfg clk key drv e' H'
           | (H', None) \<Rightarrow> (H', Inr drv)))"

definition connect_or_recreate ::
  "gw_config \<Rightarrow> clock \<Rightarrow> plc_key \<Rightarrow> driver option \<Rightarrow> (pyerr + driver) \<Rightarrow> health_table
     \<Rightarrow> health_table \<times> (pyerr + driver option)" where
  "connect_or_recreate cfg clk key drv made H =
     (if drv_connected drv then (reset_backoff key H, Inr drv)
      else let drv1 = (if drv_has_open drv then drv_open drv else drv)
           in if drv_has_open drv \<and> drv_connected drv1 then (reset_backoff key H, Inr drv1)
              else recreate cfg clk key drv1 made H)"

definition try_reconnect_helper ::
  "gw_config \<Rightarrow> clock \<Rightarrow> driver option \<Rightarrow> (pyerr + driver) \<Rightarrow> plc_key \<Rightarrow> health_table
     \<Rightarrow> health_table \<times> (pyerr + driver option)" where
  "try_reconnect_helper cfg clk drv made key H =
     (if t_now clk < next_attempt (H key) then (H, Inr drv)
      else if GATEWAY_MOCK_FAIL_RECONNECT cfg \<and> drv = None \<and> \<not> GATEWAY_MOCK_PLC cfg then
        (case record_failure cfg key (t_forced_err clk) (t_forced_next clk)
                ''forced reconnect failure (test)'' H of
           (H', Some e) \<Rightarrow> outer_handler cfg clk key drv e H'
         | (H', None) \<Rightarrow> connect_or_recreate cfg clk key drv made H')
      else connect_or_recreate cfg clk key drv made H)"

subsection \<open>The read workers\<close>

text \<open>
  \<open>read_compactlogix_tags\<close> and \<open>read_slc500_tags\<close> first test the shutdown
  event, then the driver's \<open>connected\<close> flag; what follows (selecting the tags,
  the driver reads, the writes into the tag store) touches the health table only
  through how it ends: it returns early when no tag or address is configured, it
  runs to the end, or an exception reaches the outer handler. \<open>read_body\<close> names
  these three endings; the tag values written on the way are not part of this model.
\<close>

datatype read_body = NothingToRead | ReadCompleted | ReadRaised string

definition read_plc_tags ::
  "plc_key \<Rightarrow> real \<Rightarrow> bool \<Rightarrow> driver option \<Rightarrow> read_body \<Rightarrow> health_table \<Rightarrow> health_table" where
  "read_plc_tags key now stop_set plc body H =
     (if stop_set then H
      else if \<not> drv_connected plc then
        H(key := (H key)\<lparr>ok := False, last_error := Some ''not connected''\<rparr>)
      else case body of
             NothingToRead \<Rightarrow> H
           | ReadCompleted \<Rightarrow>
               H(key := (H key)\<lparr>ok := True, last_success := now, last_error := None,
                                   fail_count := 0, next_attempt := 0\<rparr>)
           | ReadRaised msg \<Rightarrow>
               H(key := (H key)\<lparr>ok := False, last_error := Some msg,
                                   fail_count := fail_count (H key) + 1,
                                   recent_errors := deque_append (recent_errors (H key)) (now, msg)\<rparr>))"

definition read_compactlogix_tags ::
  "real \<Rightarrow> bool \<Rightarrow> driver option \<Rightarrow> read_body \<Rightarrow> health_table \<Rightarrow> health_table" where
  "read_compactlogix_tags = read_plc_tags Compactlogix"

definition read_slc500_tags ::
  "real \<Rightarrow> bool \<Rightarrow> driver option \<Rightarrow> read_body \<Rightarrow> health_table \<Rightarrow> health_table" where
  "read_slc500_tags = read_plc_tags Slc500"

subsection \<open>GET /api/v1/hmi/health\<close>

record health_snapshot =
  snap_ok :: bool
  snap_last_success :: real
  snap_last_error :: "string option"
  snap_fail_count :: int
  snap_next_attempt :: real
  snap_last_backoff :: real
  snap_recent_errors :: "(real \<times> string) list"

record health_response =
  status :: string
  timestamp :: real
  last_plc_update :: real
  age_seconds :: "real option"
  plc_health :: "plc_key \<Rightarrow> health_snapshot"

definition snapshot_entry :: "gw_config \<Rightarrow> plc_health_entry \<Rightarrow> health_snapshot" where
  "snapshot_entry cfg v =
     (let fb = (case last_backoff v of
                  Some b \<Rightarrow> b
                | None \<Rightarrow> (case compute_backoff_delay cfg (fail_count v) of
                             Inr d \<Rightarrow> d
                           | Inl e \<Rightarrow> 0))
      in \<lparr>snap_ok = ok v, snap_last_success = last_success v, snap_last_error = last_error v,
          snap_fail_count = fail_count v, snap_next_attempt = next_attempt v,
          snap_last_backoff = fb, snap_recent_errors = recent_errors v\<rparr>)"

definition get_hmi_health :: "gw_config \<Rightarrow> real \<Rightarrow> real \<Rightarrow> health_table \<Rightarrow> health_response" where
  "get_hmi_health cfg now plc_last_update H =
     (let last = plc_last_update;
          age = (if last = 0 then None else Some (now - last));
          healthy = (last \<noteq> 0 \<and> (case age of None \<Rightarrow> False | Some a \<Rightarrow> a < 5))
      in \<lparr>status = (if healthy then ''ok'' else ''degraded''),
          timestamp = now, last_plc_update = last, age_seconds = age,
          plc_health = (\<lambda>k. snapshot_entry cfg (H k))\<rparr>)"


subsection \<open>The poll loop as a transition system\<close>

text \<open>
  \<open>plc_data_poller\<close> keeps one driver variable per PLC. Each cycle first calls
  \<open>try_reconnect_helper\<close> for each PLC and stores the driver it returns (the call is
  wrapped in \<open>try/except: pass\<close>, so an exception leaves the variable as it was), then
  runs the read worker of each PLC on that driver. \<open>ticked\<close> records, per PLC, that the
  tick of the current cycle has happened and the read has not. The driver object a
  variable holds changes its \<open>connected\<close> flag only through driver calls, which the
  poller makes in the tick and in the read; so between the tick and the read of one
  cycle the flag is the one the tick left, and at any other time it may be anything
  (\<open>driver_change\<close>). The health endpoint can be served in any of these states.
  \<open>prepopulate\<close> is the synthetic failure that \<open>run_opcua_server\<close> records in mock
  mode; \<open>poller_stopped\<close> is a cycle that ends after the tick (shutdown).
  \<open>time.time()\<close> is never negative.
\<close>

record gateway =
  health :: health_table
  held :: "plc_key \<Rightarrow> driver option"
  ticked :: "plc_key \<Rightarrow> bool"

inductive reachable :: "gw_config \<Rightarrow> gateway \<Rightarrow> bool" for cfg :: gw_config where
  start:
    "reachable cfg \<lparr>health = (\<lambda>k. initial_entry\<lparr>ok := drv_connected (d k)\<rparr>), held = d,
                     ticked = (\<lambda>k. False)\<rparr>"
| prepopulate:
    "reachable cfg g \<Longrightarrow>
     reachable cfg (g\<lparr>health := fst (record_failure cfg Compactlogix t1 t2
                                      ''forced reconnect failure (test)'' (health g))\<rparr>)"
| tick:
    "reachable cfg g \<Longrightarrow> \<not> ticked g k \<Longrightarrow> 0 \<le> t_now clk \<Longrightarrow>
     try_reconnect_helper cfg clk (held g k) made k (health g) = (H', r) \<Longrightarrow>
     reachable cfg (g\<lparr>health := H',
                      held := (held g)(k := (case r of Inr d \<Rightarrow> d | Inl e \<Rightarrow> d')),
                      ticked := (ticked g)(k := True)\<rparr>)"
| read_compactlogix:
    "reachable cfg g \<Longrightarrow> ticked g Compactlogix \<Longrightarrow>
     reachable cfg (g\<lparr>health := read_compactlogix_tags now stop_set (held g Compactlogix) body (health g),
                      ticked := (ticked g)(Compactlogix := False)\<rparr>)"
| read_slc500:
    "reachable cfg g \<Longrightarrow> ticked g Slc500 \<Longrightarrow>
     reachable cfg (g\<lparr>health := read_slc500_tags now stop_set (held g Slc500) body (health g),
                      ticked := (ticked g)(Slc500 := False)\<rparr>)"
| driver_change:
    "reachable cfg g \<Longrightarrow> \<not> ticked g k \<Longrightarrow> reachable cfg (g\<lparr>held := (held g)(k := d')\<rparr>)"
| poller_stopped:
    "reachable cfg g \<Longrightarrow> reachable cfg (g\<lparr>ticked := (ticked g)(k := False)\<rparr>)"

subsection \<open>Predicates on health entries\<close>

text \<open>
  \<open>health_invariant\<close> is the invariant as the specification words it:
  \<open>fail_count == 0\<close> if and only if \<open>next_attempt == 0\<close> and \<open>last_backoff == 0\<close>.
  An entry whose \<open>last_backoff\<close> was never recorded is read as zero, the reading
  under which the initial table satisfies it.
\<close>

definition health_invariant :: "plc_health_entry \<Rightarrow> bool" where
  "health_invariant h \<longleftrightarrow>
     ((fail_count h = 0) =
      (next_attempt h = 0 \<and> (case last_backoff h of None \<Rightarrow> True | Some b \<Rightarrow> b = 0)))"

definition gate_consistent :: "plc_health_entry \<Rightarrow> bool" where
  "gate_consistent h \<longleftrightarrow> 0 \<le> fail_count h \<and> (fail_count h = 0 \<longrightarrow> next_attempt h = 0)"

definition positive_config :: "gw_config \<Rightarrow> bool" where
  "positive_config cfg \<longleftrightarrow> 0 < RECONNECT_BASE cfg \<and> 0 < RECONNECT_MAX cfg"

text \<open>
  What the poll loop maintains about an entry, whatever the configuration: an entry
  without a recorded \<open>last_backoff\<close> has seen at most one failure since its last
  reset and is not gated; a recorded \<open>last_backoff\<close> is positive when base and maximum
  are.
\<close>

definition backoff_recorded_ok :: "gw_config \<Rightarrow> plc_health_entry \<Rightarrow> bool" where
  "backoff_recorded_ok cfg h \<longleftrightarrow>
     0 \<le> fail_count h \<and>
     (case last_backoff h of
        None \<Rightarrow> next_attempt h = 0 \<and> fail_count h \<le> 1
      | Some b \<Rightarrow> positive_config cfg \<longrightarrow> 0 < b)"

definition poll_invariant :: "gw_config \<Rightarrow> gateway \<Rightarrow> plc_key \<Rightarrow> bool" where
  "poll_invariant cfg g k \<longleftrightarrow>
     backoff_recorded_ok cfg (health g k) \<and>
     (ticked g k \<and> last_backoff (health g k) = None \<and> fail_count (health g k) = 1
        \<longrightarrow> \<not> drv_connected (held g k))"

definition tick_post ::
  "gw_config \<Rightarrow> plc_key \<Rightarrow> health_table \<times> (pyerr + driver option) \<Rightarrow> bool" where
  "tick_post cfg key res \<longleftrightarrow>
     (\<forall>k. backoff_recorded_ok cfg (fst res k)) \<and>
     (last_backoff (fst res key) = None \<and> fail_count (fst res key) = 1
        \<longrightarrow> (\<exists>d. snd res = Inr d \<and> \<not> drv_connected d))"

subsection \<open>A concrete run\<close>

text \<open>
  The run of \<open>test_try_reconnect_helper_sets_backoff\<close>: an unconnected driver
  without \<open>open\<close>, a driver class whose constructor raises, the clock at 100.
\<close>

definition broken_driver :: driver where
  "broken_driver = \<lparr>connected = False, has_open = False, open_connects = False\<rparr>"

definition connected_driver :: driver where
  "connected_driver = \<lparr>connected = True, has_open = True, open_connects = True\<rparr>"

definition clock_at :: "real \<Rightarrow> clock" where
  "clock_at t = \<lparr>t_now = t, t_forced_err = t, t_forced_next = t, t_recreate_err = t,
     t_recreate_next = t, t_outer_err = t, t_outer_next = t\<rparr>"

definition started :: gateway where
  "started = \<lparr>health = (\<lambda>k. initial_entry\<lparr>ok := drv_connected (Some broken_driver)\<rparr>),
              held = (\<lambda>k. Some broken_driver), ticked = (\<lambda>k. False)\<rparr>"

definition first_tick :: "health_table \<times> (pyerr + driver option)" where
  "first_tick = try_reconnect_helper default_config (clock_at 100) (held started Compactlogix)
                  (Inl (PyExc DriverError ''create-failed'')) Compactlogix (health started)"

definition after_first_tick :: gateway where
  "after_first_tick =
     started\<lparr>health := fst first_tick,
             held := (held started)(Compactlogix :=
                        (case snd first_tick of Inr d \<Rightarrow> d | Inl e \<Rightarrow> None)),
             ticked := (ticked started)(Compactlogix := True)\<rparr>"


text \<open>
  A second run, under any configuration: the SLC 500 driver is connected, the tick
  keeps it, and the read that follows raises. The failure is counted, but no
  \<open>last_backoff\<close> is recorded for it: a response served now computes the value it
  reports.
\<close>

definition running :: gateway where
  "running = \<lparr>health = (\<lambda>k. initial_entry\<lparr>ok := drv_connected (Some connected_driver)\<rparr>),
              held = (\<lambda>k. Some connected_driver), ticked = (\<lambda>k. False)\<rparr>"

definition tick_connected :: "gw_config \<Rightarrow> health_table \<times> (pyerr + driver option)" where
  "tick_connected cfg = try_reconnect_helper cfg (clock_at 100) (held running Slc500)
                          (Inr connected_driver) Slc500 (health running)"

definition after_tick_connected :: "gw_config \<Rightarrow> gateway" where
  "after_tick_connected cfg =
     running\<lparr>health := fst (tick_connected cfg),
             held := (held running)(Slc500 :=
                        (case snd (tick_connected cfg) of Inr d \<Rightarrow> d | Inl e \<Rightarrow> None)),
             ticked := (ticked running)(Slc500 := True)\<rparr>"

definition after_failed_read :: "gw_config \<Rightarrow> gateway" where
  "after_failed_read cfg =
     (after_tick_connected cfg)
       \<lparr>health := read_slc500_tags 101 False (held (after_tick_connected cfg) Slc500)
                    (ReadRaised ''timed out'') (health (after_tick_connected cfg)),
        ticked := (ticked (after_tick_connected cfg))(Slc500 := False)\<rparr>"

text \<open>
  A table in which failures were counted and the write of \<open>last_backoff\<close> was missed,
  the case the comment in \<open>get_hmi_health\<close> names: three failures for the CompactLogix,
  1025 for the SLC 500.
\<close>

definition missed_write :: health_table where
  "missed_write = (\<lambda>k. initial_entry\<lparr>fail_count := 3\<rparr>)
                    (Slc500 := initial_entry\<lparr>fail_count := 1025\<rparr>)"

definition slow_config :: gw_config where
  "slow_config = default_config\<lparr>RECONNECT_BASE := 2\<rparr>"

section \<open>Python values of the tag store and the REST handlers\<close>

text \<open>
  Tag values and tag metadata are untyped Python objects: the REST handlers store
  what the JSON body held, the poller what the driver returned, and tests store
  \<open>Decimal\<close> objects. A \<open>Decimal\<close> is its sign, coefficient and exponent, or an
  infinity, or a NaN (quiet or signalling, with its payload).

  A Python float is represented by the decimal that \<open>Decimal(str(f))\<close> denotes, that
  is by its shortest round-trip text: \<open>0.0\<close> is \<open>Dec False 0 (-1)\<close>, \<open>9.81\<close> is
  \<open>Dec False 981 (-2)\<close>, \<open>1e+22\<close> is \<open>Dec False 1 22\<close>, \<open>nan\<close> is a quiet NaN.
  The text determines the float, so two floats are equal when their decimals have
  the same value. Binary rounding itself is not modelled: where the source rounds to
  a float (\<open>float()\<close> of a string, of a large integer, of a long \<open>Decimal\<close>) the
  result is taken from the interpreter, see \<open>interp\<close> below. Strings are ASCII. The
  wording of the interpreter's messages is that of CPython 3.11.
\<close>

datatype decimal =
    Dec bool nat int
  | DInf bool
  | DNaN bool bool nat

datatype pyval =
    VNone
  | VBool bool
  | VInt int
  | VFloat decimal
  | VDecimal decimal
  | VStr string
  | VList "pyval list"
  | VDict "(string \<times> pyval) list"

definition quoted :: "string \<Rightarrow> string" where
  "quoted s = [CHR 0x27] @ s @ [CHR 0x27]"

fun type_name :: "pyval \<Rightarrow> string" where
  "type_name VNone = ''NoneType''"
| "type_name (VBool b) = ''bool''"
| "type_name (VInt n) = ''int''"
| "type_name (VFloat d) = ''float''"
| "type_name (VDecimal d) = ''decimal.Decimal''"
| "type_name (VStr s) = ''str''"
| "type_name (VList xs) = ''list''"
| "type_name (VDict kvs) = ''dict''"

definition no_attribute :: "pyval \<Rightarrow> string \<Rightarrow> pyerr" where
  "no_attribute v attr =
     PyExc AttributeError (quoted (type_name v) @ '' object has no attribute '' @ quoted attr)"

definition dec_is_zero :: "decimal \<Rightarrow> bool" where
  "dec_is_zero d = (case d of Dec s c e \<Rightarrow> c = 0 | _ \<Rightarrow> False)"

text \<open>Truth value testing, as \<open>bool(x)\<close>, \<open>x or y\<close>, \<open>if x\<close> and \<open>not x\<close> do it.\<close>

fun truthy :: "pyval \<Rightarrow> bool" where
  "truthy VNone = False"
| "truthy (VBool b) = b"
| "truthy (VInt n) = (n \<noteq> 0)"
| "truthy (VFloat d) = (\<not> dec_is_zero d)"
| "truthy (VDecimal d) = (\<not> dec_is_zero d)"
| "truthy (VStr s) = (s \<noteq> [])"
| "truthy (VList xs) = (xs \<noteq> [])"
| "truthy (VDict kvs) = (kvs \<noteq> [])"

definition py_or :: "pyval \<Rightarrow> pyval \<Rightarrow> pyval" where
  "py_or a b = (if truthy a then a else b)"

subsection \<open>Strings\<close>

definition lower_char :: "char \<Rightarrow> char" where
  "lower_char ch =
     (case map_of (zip ''ABCDEFGHIJKLMNOPQRSTUVWXYZ'' ''abcdefghijklmnopqrstuvwxyz'') ch of
        Some l \<Rightarrow> l
      | None \<Rightarrow> ch)"

definition lower :: "string \<Rightarrow> string" where
  "lower s = map lower_char s"

definition startswith :: "string \<Rightarrow> string \<Rightarrow> bool" where
  "startswith s p \<longleftrightarrow> take (length p) s = p"

text \<open>\<open>sub in s\<close> for two strings.\<close>

primrec str_contains :: "string \<Rightarrow> string \<Rightarrow> bool" where
  "str_contains sub [] = (sub = [])"
| "str_contains sub (ch # s) = (startswith (ch # s) sub \<or> str_contains sub s)"

text \<open>\<open>v.lower()\<close> for an arbitrary object: only a string has the method.\<close>

definition py_lower :: "pyval \<Rightarrow> pyerr + string" where
  "py_lower v = (case v of VStr s \<Rightarrow> Inr (lower s) | _ \<Rightarrow> Inl (no_attribute v ''lower''))"

subsection \<open>Dictionary keys\<close>

text \<open>
  The two dicts of the store are keyed by \<open>tag_id\<close>. Python hashes a key and
  compares it by value: lists and dicts cannot be hashed, a signalling NaN cannot
  either, and numbers of equal value are one key (\<open>True\<close>, \<open>1\<close>, \<open>1.0\<close> and
  \<open>Decimal(1)\<close>). A key is therefore kept as \<open>None\<close>, a string, or the value of a
  number. A float is compared by the value of its text here, which is its own value
  for the floats that are short decimals; and two NaN objects, which Python keeps
  apart, share a key.
\<close>

datatype dict_key = KNone | KStr string | KNum real | KInf bool | KNaN

definition dec_value :: "bool \<Rightarrow> nat \<Rightarrow> int \<Rightarrow> real" where
  "dec_value s c e =
     (if s then - 1 else 1) * real c * (if 0 \<le> e then 10 ^ nat e else 1 / 10 ^ nat (- e))"

definition unhashable :: "pyval \<Rightarrow> pyerr" where
  "unhashable v = PyExc TypeError (''unhashable type: '' @ quoted (type_name v))"

definition num_key :: "decimal \<Rightarrow> pyerr + dict_key" where
  "num_key d =
     (case d of
        Dec s c e \<Rightarrow> Inr (KNum (dec_value s c e))
      | DInf s \<Rightarrow> Inr (KInf s)
      | DNaN s sig p \<Rightarrow>
          if sig then Inl (PyExc TypeError ''Cannot hash a signaling NaN value'') else Inr KNaN)"

fun hash_key :: "pyval \<Rightarrow> pyerr + dict_key" where
  "hash_key VNone = Inr KNone"
| "hash_key (VBool b) = Inr (KNum (if b then 1 else 0))"
| "hash_key (VInt n) = Inr (KNum (real_of_int n))"
| "hash_key (VFloat d) = num_key d"
| "hash_key (VDecimal d) = num_key d"
| "hash_key (VStr s) = Inr (KStr s)"
| "hash_key (VList xs) = Inl (unhashable (VList xs))"
| "hash_key (VDict kvs) = Inl (unhashable (VDict kvs))"

section \<open>The tag store (models.py, tag\_store.py)\<close>

text \<open>
  \<open>Tag\<close> is a dataclass without validation: every field holds whatever object the
  caller passed. The store is two dicts under one lock; every method runs under
  the lock, so a method is a function from the store before to the store after.
\<close>

record Tag =
  tag_id :: pyval
  name :: pyval
  plc_id :: pyval
  address :: pyval
  data_type :: pyval
  group_id :: pyval
  project_id :: pyval
  scale_mul :: pyval
  scale_add :: pyval
  decimals :: pyval
  writable :: pyval
  description :: pyval
  enabled :: pyval
  client_visible :: pyval

record TagStore =
  store_tags :: "dict_key \<rightharpoonup> Tag"
  store_values :: "dict_key \<rightharpoonup> pyval"

definition empty_store :: TagStore where
  "empty_store = \<lparr>store_tags = Map.empty, store_values = Map.empty\<rparr>"

definition float_zero :: pyval where
  "float_zero = VFloat (Dec False 0 (- 1))"

definition float_one :: pyval where
  "float_one = VFloat (Dec False 10 (- 1))"

text \<open>
  \<open>add_tag\<close> stores the tag first. With no initial value it then lowers
  \<open>tag.data_type\<close>, which raises for an object that is true and not a string; the
  tag is stored by then and has no value. The result is the store as the call
  leaves it and the exception, if one leaves the method.
\<close>

definition add_tag :: "Tag \<Rightarrow> pyval \<Rightarrow> TagStore \<Rightarrow> TagStore \<times> pyerr option" where
  "add_tag tag initial_value s =
     (case hash_key (tag_id tag) of
        Inl e \<Rightarrow> (s, Some e)
      | Inr k \<Rightarrow>
          (let s1 = s\<lparr>store_tags := (store_tags s)(k \<mapsto> tag)\<rparr>
           in if initial_value \<noteq> VNone
              then (s1\<lparr>store_values := (store_values s1)(k \<mapsto> initial_value)\<rparr>, None)
              else (case (if truthy (data_type tag) then py_lower (data_type tag) else Inr '''') of
                      Inl e \<Rightarrow> (s1, Some e)
                    | Inr dt \<Rightarrow>
                        (s1\<lparr>store_values := (store_values s1)(k \<mapsto>
                             (if startswith dt ''bool'' then VBool False
                              else if str_contains ''int'' dt then VInt 0
                              else float_zero))\<rparr>, None))))"

text \<open>
  The other methods. \<open>pop\<close> and \<open>get\<close> hash their key as well. \<open>get_tag\<close> and
  \<open>get_raw_value\<close> return \<open>None\<close> for a key that is absent.
\<close>

definition remove_tag :: "pyval \<Rightarrow> TagStore \<Rightarrow> TagStore \<times> pyerr option" where
  "remove_tag tid s =
     (case hash_key tid of
        Inl e \<Rightarrow> (s, Some e)
      | Inr k \<Rightarrow> (s\<lparr>store_tags := (store_tags s)(k := None),
                       store_values := (store_values s)(k := None)\<rparr>, None))"

definition set_value :: "pyval \<Rightarrow> pyval \<Rightarrow> TagStore \<Rightarrow> TagStore \<times> pyerr option" where
  "set_value tid v s =
     (case hash_key tid of
        Inl e \<Rightarrow> (s, Some e)
      | Inr k \<Rightarrow> (s\<lparr>store_values := (store_values s)(k \<mapsto> v)\<rparr>, None))"

definition get_raw_value :: "pyval \<Rightarrow> TagStore \<Rightarrow> pyerr + pyval" where
  "get_raw_value tid s =
     (case hash_key tid of
        Inl e \<Rightarrow> Inl e
      | Inr k \<Rightarrow> Inr (case store_values s k of None \<Rightarrow> VNone | Some v \<Rightarrow> v))"

definition get_tag :: "pyval \<Rightarrow> TagStore \<Rightarrow> pyerr + Tag option" where
  "get_tag tid s = (case hash_key tid of Inl e \<Rightarrow> Inl e | Inr k \<Rightarrow> Inr (store_tags s k))"

definition clear_tags :: "TagStore \<Rightarrow> TagStore" where
  "clear_tags s = s\<lparr>store_tags := Map.empty, store_values := Map.empty\<rparr>"

subsection \<open>Tags of the tests\<close>

text \<open>A tag as the dataclass defaults leave it, given its id and data type.\<close>

definition plain_tag :: "string \<Rightarrow> string \<Rightarrow> Tag" where
  "plain_tag tid dt =
     \<lparr>tag_id = VStr tid, name = VStr tid, plc_id = VStr ''plc_1'', address = VStr '''',
      data_type = VStr dt, group_id = VStr ''default'', project_id = VNone,
      scale_mul = float_one, scale_add = float_zero, decimals = VNone,
      writable = VBool False, description = VNone, enabled = VBool True,
      client_visible = VList []\<rparr>"

section \<open>Conversions between numbers and text\<close>

subsection \<open>Digits\<close>

definition digit_char :: "nat \<Rightarrow> char" where
  "digit_char n = ''0123456789'' ! n"

fun digits_of_nat :: "nat \<Rightarrow> string" where
  "digits_of_nat n =
     (if n < 10 then [digit_char n] else digits_of_nat (n div 10) @ [digit_char (n mod 10)])"

declare digits_of_nat.simps [simp del]

definition ndigits :: "nat \<Rightarrow> nat" where
  "ndigits n = length (digits_of_nat n)"

definition str_of_int :: "int \<Rightarrow> string" where
  "str_of_int i = (if i < 0 then CHR ''-'' # digits_of_nat (nat (- i)) else digits_of_nat (nat i))"

text \<open>\<open>str(d)\<close> of a \<open>Decimal\<close>: scientific notation as \<open>Decimal.__str__\<close> writes it.\<close>

definition str_of_decimal :: "decimal \<Rightarrow> string" where
  "str_of_decimal d =
     (case d of
        DInf s \<Rightarrow> (if s then ''-'' else '''') @ ''Infinity''
      | DNaN s sig p \<Rightarrow>
          (if s then ''-'' else '''') @ (if sig then ''sNaN'' else ''NaN'')
            @ (if p = 0 then '''' else digits_of_nat p)
      | Dec s c e \<Rightarrow>
          (let ds = digits_of_nat c;
               leftdigits = e + int (length ds);
               dotplace = (if e \<le> 0 \<and> leftdigits > - 6 then leftdigits else 1);
               intpart = (if dotplace \<le> 0 then ''0''
                          else if dotplace \<ge> int (length ds)
                            then ds @ replicate (nat (dotplace - int (length ds))) CHR ''0''
                          else take (nat dotplace) ds);
               fracpart = (if dotplace \<le> 0 then ''.'' @ replicate (nat (- dotplace)) CHR ''0'' @ ds
                           else if dotplace \<ge> int (length ds) then ''''
                           else ''.'' @ drop (nat dotplace) ds);
               ex = (if leftdigits = dotplace then ''''
                     else ''E'' @ (if leftdigits - dotplace < 0 then ''-'' else ''+'')
                            @ digits_of_nat (nat \<bar>leftdigits - dotplace\<bar>))
           in (if s then ''-'' else '''') @ intpart @ fracpart @ ex))"

subsection \<open>Integral decimals\<close>

text \<open>
  A finite decimal is integral when its exponent is not negative or the digits below
  the point are all zero. \<open>int(d)\<close> truncates; on an integral decimal it is the value.
\<close>

definition dec_integral :: "nat \<Rightarrow> int \<Rightarrow> bool" where
  "dec_integral c e \<longleftrightarrow> 0 \<le> e \<or> c mod 10 ^ nat (- e) = 0"

definition dec_trunc :: "bool \<Rightarrow> nat \<Rightarrow> int \<Rightarrow> int" where
  "dec_trunc s c e =
     (let m = (if 0 \<le> e then int c * 10 ^ nat e else int (c div 10 ^ nat (- e)))
      in if s then - m else m)"

subsection \<open>Rounding to a float\<close>

text \<open>
  \<open>float_form s c e\<close> is the float whose shortest text has the digits \<open>c\<close> at the
  exponent \<open>e\<close>, in the representation chosen above: what \<open>Decimal(repr(f))\<close> is.
  \<open>repr\<close> writes a float whose digits end left of the seventeenth place as an
  integer followed by \<open>.0\<close> (\<open>100.0\<close> for \<open>1E+2\<close>), any other float with its
  digits and exponent as they are (\<open>0.0001\<close>, \<open>1e-05\<close>, \<open>1e+16\<close>, \<open>1.5e-07\<close>).
\<close>

function strip_zeros :: "nat \<Rightarrow> int \<Rightarrow> nat \<times> int" where
  "strip_zeros c e = (if c \<noteq> 0 \<and> c mod 10 = 0 then strip_zeros (c div 10) (e + 1) else (c, e))"
  by pat_completeness auto

termination
  by (relation "measure fst") auto

declare strip_zeros.simps [simp del]

definition float_form :: "bool \<Rightarrow> nat \<Rightarrow> int \<Rightarrow> decimal" where
  "float_form s c e =
     (if c = 0 then Dec s 0 (- 1)
      else case strip_zeros c e of
             (c', e') \<Rightarrow>
               if 0 \<le> e' \<and> int (ndigits c') + e' \<le> 16 then Dec s (c' * 10 ^ nat (e' + 1)) (- 1)
               else Dec s c' e')"

text \<open>
  What the interpreter does and this model does not compute: the float nearest to
  a number that is not a short decimal, the parsing of a string by \<open>float()\<close> and
  by \<open>int()\<close>, and the integer part of a float beyond \<open>2^53\<close>. The theorems hold for
  every \<open>interp\<close>.

  A number with at most fifteen significant digits and a magnitude between
  \<open>1E-307\<close> and \<open>1E+308\<close> is the shortest text of the float nearest to it, and so is
  an integer up to \<open>2^53\<close>; \<open>float()\<close> of these is computed here.
\<close>

record interp =
  round_to_double :: "bool \<Rightarrow> nat \<Rightarrow> int \<Rightarrow> decimal"
  float_of_str :: "string \<Rightarrow> pyerr + decimal"
  int_of_str :: "string \<Rightarrow> pyerr + int"
  int_of_big_float :: "decimal \<Rightarrow> int"

definition short_decimal :: "nat \<Rightarrow> int \<Rightarrow> bool" where
  "short_decimal c e \<longleftrightarrow>
     (case strip_zeros c e of
        (c', e') \<Rightarrow>
          (ndigits c' \<le> 15 \<and> - 307 \<le> int (ndigits c') + e' - 1 \<and> int (ndigits c') + e' - 1 \<le> 307)
          \<or> (0 \<le> e' \<and> c' * 10 ^ nat e' \<le> 2 ^ 53))"

definition float_of_number :: "interp \<Rightarrow> bool \<Rightarrow> nat \<Rightarrow> int \<Rightarrow> decimal" where
  "float_of_number ip s c e =
     (if c = 0 \<or> short_decimal c e then float_form s c e else round_to_double ip s c e)"

definition float_of_int :: "interp \<Rightarrow> int \<Rightarrow> pyerr + decimal" where
  "float_of_int ip n =
     (if 2 ^ 1024 - 2 ^ 970 \<le> \<bar>n\<bar>
      then Inl (PyExc OverflowError ''int too large to convert to float'')
      else Inr (float_of_number ip (n < 0) (nat \<bar>n\<bar>) 0))"

definition float_of_decimal :: "interp \<Rightarrow> decimal \<Rightarrow> pyerr + decimal" where
  "float_of_decimal ip d =
     (case d of
        Dec s c e \<Rightarrow> Inr (float_of_number ip s c e)
      | DInf s \<Rightarrow> Inr (DInf s)
      | DNaN s sig p \<Rightarrow>
          if sig then Inl (PyExc ValueError ''cannot convert signaling NaN to float'')
          else Inr (DNaN False False 0))"

definition float_type_error :: "pyval \<Rightarrow> pyerr" where
  "float_type_error v =
     PyExc TypeError (''float() argument must be a string or a real number, not ''
                      @ quoted (type_name v))"

text \<open>\<open>float(v)\<close>; the result is the float, in its representation.\<close>

fun py_float :: "interp \<Rightarrow> pyval \<Rightarrow> pyerr + decimal" where
  "py_float ip VNone = Inl (float_type_error VNone)"
| "py_float ip (VBool b) = Inr (if b then Dec False 10 (- 1) else Dec False 0 (- 1))"
| "py_float ip (VInt n) = float_of_int ip n"
| "py_float ip (VFloat d) = Inr d"
| "py_float ip (VDecimal d) = float_of_decimal ip d"
| "py_float ip (VStr s) = float_of_str ip s"
| "py_float ip (VList xs) = Inl (float_type_error (VList xs))"
| "py_float ip (VDict kvs) = Inl (float_type_error (VDict kvs))"

section \<open>The REST handlers of the tags (api.py)\<close>

text \<open>
  A handler is modelled from the parsed request on: its argument is what
  \<open>request.get_json()\<close> returned (\<open>None\<close> for a body that is not there), its result
  is the response, or the exception that leaves the handler (the framework answers
  500), and the store as the handler leaves it. \<open>bp.tag_store\<close> is \<open>None\<close> until the
  server sets it. Scheduling the OPC UA node is wrapped in \<open>try/except: pass\<close> and
  touches neither the store nor the response. The body of a response is the object
  before it is written as JSON text. A dict from JSON has string keys, each once.
\<close>

record response =
  http_status :: nat
  http_body :: pyval

subsection \<open>\_json\_response and jsonify\<close>

text \<open>
  \<open>_convert\<close>: a \<open>Decimal\<close> becomes an \<open>int\<close> when it equals its integral value,
  otherwise a \<open>float\<close>, and its text when that raises; dicts and lists are converted
  inside. \<open>to_integral_value\<close> raises for a signalling NaN, \<open>int()\<close> for an infinity,
  and a quiet NaN equals nothing.
\<close>

definition equals_integral_value :: "decimal \<Rightarrow> pyerr + bool" where
  "equals_integral_value d =
     (case d of
        Dec s c e \<Rightarrow> Inr (dec_integral c e)
      | DInf s \<Rightarrow> Inr True
      | DNaN s sig p \<Rightarrow>
          if sig then Inl (PyExc InvalidOperation ''[<class 'decimal.InvalidOperation'>]'')
          else Inr False)"

definition int_of_decimal :: "decimal \<Rightarrow> pyerr + int" where
  "int_of_decimal d =
     (case d of
        Dec s c e \<Rightarrow> Inr (dec_trunc s c e)
      | DInf s \<Rightarrow> Inl (PyExc OverflowError ''cannot convert Infinity to integer'')
      | DNaN s sig p \<Rightarrow> Inl (PyExc ValueError ''cannot convert NaN to integer''))"

definition convert_decimal :: "interp \<Rightarrow> decimal \<Rightarrow> pyval" where
  "convert_decimal ip d =
     (let as_float = (case float_of_decimal ip d of
                        Inr f \<Rightarrow> VFloat f
                      | Inl e \<Rightarrow> VStr (str_of_decimal d))
      in case equals_integral_value d of
           Inl e \<Rightarrow> as_float
         | Inr False \<Rightarrow> as_float
         | Inr True \<Rightarrow> (case int_of_decimal d of Inr n \<Rightarrow> VInt n | Inl e \<Rightarrow> as_float))"

primrec convert :: "interp \<Rightarrow> pyval \<Rightarrow> pyval" where
  "convert ip VNone = VNone"
| "convert ip (VBool b) = VBool b"
| "convert ip (VInt n) = VInt n"
| "convert ip (VFloat d) = VFloat d"
| "convert ip (VDecimal d) = convert_decimal ip d"
| "convert ip (VStr s) = VStr s"
| "convert ip (VList xs) = VList (map (convert ip) xs)"
| "convert ip (VDict kvs) = VDict (map (map_prod id (convert ip)) kvs)"

definition json_response :: "interp \<Rightarrow> pyval \<Rightarrow> nat \<Rightarrow> response" where
  "json_response ip obj st = \<lparr>http_status = st, http_body = convert ip obj\<rparr>"

definition error_response :: "string \<Rightarrow> nat \<Rightarrow> response" where
  "error_response msg st = \<lparr>http_status = st, http_body = VDict [(''error'', VStr msg)]\<rparr>"

subsection \<open>Reading the payload\<close>

text \<open>\<open>d.get(key, default)\<close> on a dict.\<close>

definition dict_get :: "(string \<times> pyval) list \<Rightarrow> string \<Rightarrow> pyval \<Rightarrow> pyval" where
  "dict_get kvs key dflt = (case map_of kvs key of Some v \<Rightarrow> v | None \<Rightarrow> dflt)"

text \<open>
  The expression \<open>Tag(tag_id=t.get('tag_id') or t.get('name'), ...)\<close>, the same in
  \<open>add_tag\<close> and in \<open>import_tags\<close>. An object that is not a dict has no \<open>get\<close>; on a
  dict only the two calls of \<open>float\<close> can raise. \<open>decimals\<close> keeps its default.
\<close>

definition build_tag :: "interp \<Rightarrow> pyval \<Rightarrow> pyerr + Tag" where
  "build_tag ip t =
     (case t of
        VDict kvs \<Rightarrow>
          (case py_float ip (dict_get kvs ''scale_mul'' float_one) of
             Inl e \<Rightarrow> Inl e
           | Inr mul \<Rightarrow>
               (case py_float ip (dict_get kvs ''scale_add'' float_zero) of
                  Inl e \<Rightarrow> Inl e
                | Inr add \<Rightarrow>
                    Inr \<lparr>tag_id = py_or (dict_get kvs ''tag_id'' VNone) (dict_get kvs ''name'' VNone),
                         name = dict_get kvs ''name'' (dict_get kvs ''tag_id'' VNone),
                         plc_id = dict_get kvs ''plc_id'' (VStr ''plc_1''),
                         address = dict_get kvs ''address'' (VStr ''''),
                         data_type = dict_get kvs ''data_type'' (VStr ''Double''),
                         group_id = dict_get kvs ''group_id'' (VStr ''default''),
                         project_id = dict_get kvs ''project_id'' VNone,
                         scale_mul = VFloat mul,
                         scale_add = VFloat add,
                         decimals = VNone,
                         writable = VBool (truthy (dict_get kvs ''writable'' (VBool False))),
                         description = dict_get kvs ''description'' VNone,
                         enabled = VBool (truthy (dict_get kvs ''enabled'' (VBool True))),
                         client_visible = dict_get kvs ''client_visible'' (VList [])\<rparr>))
      | _ \<Rightarrow> Inl (no_attribute t ''get''))"

definition initial_value_of :: "pyval \<Rightarrow> pyval" where
  "initial_value_of t = (case t of VDict kvs \<Rightarrow> dict_get kvs ''initial_value'' VNone | _ \<Rightarrow> VNone)"

subsection \<open>POST /api/v1/tags\<close>

text \<open>
  \<open>'tags' in payload\<close>, \<open>payload['tags']\<close> and the iteration of \<open>for t in tags\<close> are
  outside the \<open>try\<close>: what they raise leaves the handler.
\<close>

definition has_tags :: "pyval \<Rightarrow> pyerr + bool" where
  "has_tags payload =
     (case payload of
        VDict kvs \<Rightarrow> Inr (map_of kvs ''tags'' \<noteq> None)
      | VList xs \<Rightarrow> Inr (VStr ''tags'' \<in> set xs)
      | VStr s \<Rightarrow> Inr (str_contains ''tags'' s)
      | _ \<Rightarrow> Inl (PyExc TypeError (''argument of type '' @ quoted (type_name payload)
                                     @ '' is not iterable'')))"

definition tags_item :: "pyval \<Rightarrow> pyerr + pyval" where
  "tags_item payload =
     (case payload of
        VDict kvs \<Rightarrow> Inr (dict_get kvs ''tags'' VNone)
      | VList xs \<Rightarrow> Inl (PyExc TypeError ''list indices must be integers or slices, not str'')
      | VStr s \<Rightarrow> Inl (PyExc TypeError (''string indices must be integers, not '' @ quoted ''str''))
      | _ \<Rightarrow> Inl (PyExc TypeError (quoted (type_name payload) @ '' object is not subscriptable'')))"

definition py_iter :: "pyval \<Rightarrow> pyerr + pyval list" where
  "py_iter v =
     (case v of
        VList xs \<Rightarrow> Inr xs
      | VDict kvs \<Rightarrow> Inr (map (\<lambda>kv. VStr (fst kv)) kvs)
      | VStr s \<Rightarrow> Inr (map (\<lambda>ch. VStr [ch]) s)
      | _ \<Rightarrow> Inl (PyExc TypeError (quoted (type_name v) @ '' object is not iterable'')))"

text \<open>
  The loop of \<open>add_tag\<close>: every exception of an iteration ends the request with 400
  and its message. Tags added by earlier iterations stay.
\<close>

primrec add_tag_loop ::
  "interp \<Rightarrow> pyval list \<Rightarrow> pyval list \<Rightarrow> TagStore \<Rightarrow> response \<times> TagStore" where
  "add_tag_loop ip [] created s =
     (json_response ip (VDict [(''created'', VList created)]) 201, s)"
| "add_tag_loop ip (t # ts) created s =
     (case build_tag ip t of
        Inl e \<Rightarrow> (error_response (exc_msg e) 400, s)
      | Inr tag_obj \<Rightarrow>
          (case add_tag tag_obj (initial_value_of t) s of
             (s', Some e) \<Rightarrow> (error_response (exc_msg e) 400, s')
           | (s', None) \<Rightarrow> add_tag_loop ip ts (created @ [tag_id tag_obj]) s'))"

definition not_initialized :: "interp \<Rightarrow> response" where
  "not_initialized ip =
     json_response ip (VDict [(''error'', VStr ''TagStore not initialized'')]) 500"

definition api_add_tag ::
  "interp \<Rightarrow> pyval \<Rightarrow> TagStore option \<Rightarrow> (pyerr + response) \<times> TagStore option" where
  "api_add_tag ip json bp_tag_store =
     (case bp_tag_store of
        None \<Rightarrow> (Inr (not_initialized ip), None)
      | Some s \<Rightarrow>
          (let payload = py_or json (VDict [])
           in case has_tags payload of
                Inl e \<Rightarrow> (Inl e, Some s)
              | Inr found \<Rightarrow>
                  (case (if found then tags_item payload else Inr (VList [payload])) of
                     Inl e \<Rightarrow> (Inl e, Some s)
                   | Inr tags \<Rightarrow>
                       (case py_iter tags of
                          Inl e \<Rightarrow> (Inl e, Some s)
                        | Inr ts \<Rightarrow>
                            (case add_tag_loop ip ts [] s of
                               (r, s') \<Rightarrow> (Inr r, Some s'))))))"

subsection \<open>PUT /api/v1/tags/import\<close>

definition validate_tag_payload :: "pyval \<Rightarrow> bool \<times> string" where
  "validate_tag_payload d =
     (case d of
        VDict kvs \<Rightarrow>
          (let tid = py_or (dict_get kvs ''tag_id'' VNone) (dict_get kvs ''name'' VNone)
           in if \<not> truthy tid \<or> \<not> (case tid of VStr x \<Rightarrow> True | _ \<Rightarrow> False)
              then (False, ''tag_id or name is required and must be a string'')
              else (let dt = py_or (dict_get kvs ''data_type'' VNone) (VStr ''Double'')
                    in if \<not> (case dt of VStr x \<Rightarrow> True | _ \<Rightarrow> False)
                       then (False, ''data_type must be a string'')
                       else (True, '''')))
      | _ \<Rightarrow> (False, ''tag must be an object''))"

text \<open>
  The loop of \<open>import_tags\<close>. Here nothing is caught: an exception of \<open>float\<close> or
  of \<open>add_tag\<close> leaves the handler.
\<close>

primrec import_loop ::
  "interp \<Rightarrow> pyval list \<Rightarrow> pyval list \<Rightarrow> TagStore \<Rightarrow> (pyerr + response) \<times> TagStore" where
  "import_loop ip [] created s =
     (Inr (json_response ip (VDict [(''imported'', VList created)]) 200), s)"
| "import_loop ip (t # ts) created s =
     (case validate_tag_payload t of
        (False, msg) \<Rightarrow> (Inr (error_response msg 400), s)
      | (True, msg) \<Rightarrow>
          (case build_tag ip t of
             Inl e \<Rightarrow> (Inl e, s)
           | Inr tag_obj \<Rightarrow>
               (case add_tag tag_obj (initial_value_of t) s of
                  (s', Some e) \<Rightarrow> (Inl e, s')
                | (s', None) \<Rightarrow> import_loop ip ts (created @ [tag_id tag_obj]) s')))"

text \<open>
  \<open>replace_all\<close> is the query argument, absent or a string. The store is cleared
  before the first tag is validated.
\<close>

definition import_tags ::
  "interp \<Rightarrow> string option \<Rightarrow> pyval \<Rightarrow> TagStore option \<Rightarrow> (pyerr + response) \<times> TagStore option" where
  "import_tags ip replace_all_arg json bp_tag_store =
     (case bp_tag_store of
        None \<Rightarrow> (Inr (not_initialized ip), None)
      | Some s \<Rightarrow>
          (let replace_all =
                 (lower (case replace_all_arg of None \<Rightarrow> ''false'' | Some a \<Rightarrow> a)
                    \<in> {''1'', ''true'', ''yes''});
               payload = py_or json (VDict [])
           in case payload of
                VDict kvs \<Rightarrow>
                  (case dict_get kvs ''tags'' VNone of
                     VList ts \<Rightarrow>
                       (case import_loop ip ts [] (if replace_all then clear_tags s else s) of
                          (r, s') \<Rightarrow> (r, Some s'))
                   | _ \<Rightarrow> (Inr (json_response ip (VDict [(''error'', VStr ''tags must be a list'')]) 400),
                           Some s))
              | _ \<Rightarrow> (Inl (no_attribute payload ''get''), Some s)))"

subsection \<open>Requests of the tests\<close>


definition nameless_tag :: Tag where
  "nameless_tag =
     \<lparr>tag_id = VNone, name = VNone, plc_id = VStr ''plc_1'', address = VStr '''',
      data_type = VStr ''Double'', group_id = VStr ''default'', project_id = VNone,
      scale_mul = float_one, scale_add = float_zero, decimals = VNone,
      writable = VBool False, description = VNone, enabled = VBool True,
      client_visible = VList []\<rparr>"

text \<open>
  Two requests in a row on an empty store: a tag \<open>T1\<close> of type \<open>Int32\<close> with the
  initial value 5, then a tag of the same id, of type \<open>Boolean\<close>, with no initial
  value.
\<close>

definition first_post :: pyval where
  "first_post = VDict [(''tag_id'', VStr ''T1''), (''data_type'', VStr ''Int32''),
                       (''initial_value'', VInt 5)]"


definition posted_tag :: "string \<Rightarrow> Tag" where
  "posted_tag dt =
     \<lparr>tag_id = VStr ''T1'', name = VStr ''T1'', plc_id = VStr ''plc_1'', address = VStr '''',
      data_type = VStr dt, group_id = VStr ''default'', project_id = VNone,
      scale_mul = float_one, scale_add = float_zero, decimals = VNone,
      writable = VBool False, description = VNone, enabled = VBool True,
      client_visible = VList []\<rparr>"

definition after_first_post :: TagStore where
  "after_first_post = \<lparr>store_tags = [KStr ''T1'' \<mapsto> posted_tag ''Int32''],
                        store_values = [KStr ''T1'' \<mapsto> VInt 5]\<rparr>"
section \<open>Properties of the reconnect backoff\<close>

lemma compute_backoff_delay_in_range:
  "n \<le> 1024 \<Longrightarrow>
   compute_backoff_delay cfg n =
     Inr (if n \<le> 0 then 0
          else min (RECONNECT_BASE cfg * 2 ^ nat (n - 1)) (RECONNECT_MAX cfg))"
  by (auto simp add: compute_backoff_delay_def float_of_pow2_def)

lemma compute_backoff_delay_table:
  "map (compute_backoff_delay (default_config\<lparr>RECONNECT_BASE := 1, RECONNECT_MAX := 4\<rparr>))
       [0, 1, 2, 3, 4]
     = [Inr 0, Inr 1, Inr 2, Inr 4, Inr 4]"
  by (simp add: compute_backoff_delay_def float_of_pow2_def default_config_def)

lemma compute_backoff_delay_raises_iff:
  "(\<exists>e. compute_backoff_delay cfg n = Inl e) \<longleftrightarrow> 1025 \<le> n"
  by (auto simp add: compute_backoff_delay_def float_of_pow2_def split: if_splits)

lemma compute_backoff_delay_pos:
  "positive_config cfg \<Longrightarrow> 0 < n \<Longrightarrow> compute_backoff_delay cfg n = Inr d \<Longrightarrow> 0 < d"
  by (auto simp: compute_backoff_delay_def float_of_pow2_def positive_config_def
      split: if_splits)

lemma compute_backoff_delay_small:
  "n \<le> 1024 \<Longrightarrow> \<exists>d. compute_backoff_delay cfg n = Inr d"
  by (auto simp: compute_backoff_delay_def float_of_pow2_def)

text \<open>
  Claim C1. For every integer \<open>n\<close>, \<open>compute_backoff_delay(n)\<close> returns \<open>0\<close> when
  \<open>n \<le> 0\<close> and \<open>min(RECONNECT_BASE * 2^(n-1), RECONNECT_MAX)\<close> otherwise. The code
  does so up to \<open>n = 1024\<close> (\<open>compute_backoff_delay_in_range\<close>, and the table of the
  test in \<open>compute_backoff_delay_table\<close>). At \<open>n = 1025\<close>, with the default base and
  maximum, it does not return: the power \<open>2 ** 1024\<close> is computed before the cap is
  applied and cannot be converted to a float.
\<close>

theorem compute_backoff_delay_overflow:
  "compute_backoff_delay default_config 1025
     = Inl (PyExc OverflowError ''int too large to convert to float'')"
  by (simp add: compute_backoff_delay_def float_of_pow2_def default_config_def)

section \<open>Properties of the health table\<close>

lemma first_tick_value:
  "first_tick =
     ((\<lambda>k. initial_entry)(Compactlogix := initial_entry\<lparr>fail_count := 1,
          recent_errors := [(100, ''recreate error: create-failed'')],
          next_attempt := 101, last_backoff := Some 1\<rparr>),
      Inr (Some broken_driver))"
  by (simp add: first_tick_def started_def try_reconnect_helper_def connect_or_recreate_def
      recreate_def record_failure_def compute_backoff_delay_def float_of_pow2_def
      default_config_def clock_at_def broken_driver_def drv_connected_def drv_has_open_def
      initial_entry_def deque_append_def Let_def)

text \<open>
  Claim C3, as stated: every reconnect tick and every read path leaves each health
  entry with \<open>fail_count == 0\<close> if and only if \<open>next_attempt == 0\<close> and
  \<open>last_backoff == 0\<close>. It fails. After the failed reconnect of the test the entry
  satisfies the invariant; a tick that finds the driver connected, or a read that
  succeeds, zeroes \<open>fail_count\<close> and \<open>next_attempt\<close> and keeps \<open>last_backoff = 1\<close>.
  And a read that raises on the initial table counts a failure while \<open>next_attempt\<close>
  and \<open>last_backoff\<close> stay as they were.
\<close>

theorem health_invariant_not_preserved:
  "health_invariant (fst first_tick Compactlogix) \<and>
   \<not> health_invariant
       (fst (try_reconnect_helper default_config (clock_at 102) (Some connected_driver)
               (Inl (PyExc DriverError ''unused'')) Compactlogix (fst first_tick)) Compactlogix) \<and>
   \<not> health_invariant
       (read_compactlogix_tags 102 False (Some connected_driver) ReadCompleted
          (fst first_tick) Compactlogix) \<and>
   health_invariant (initial_plc_health Slc500) \<and>
   \<not> health_invariant
       (read_slc500_tags 102 False (Some connected_driver) (ReadRaised ''boom'')
          initial_plc_health Slc500)"
  by (simp add: first_tick_value health_invariant_def try_reconnect_helper_def
      connect_or_recreate_def reset_backoff_def read_compactlogix_tags_def read_slc500_tags_def
      read_plc_tags_def clock_at_def connected_driver_def drv_connected_def
      initial_plc_health_def initial_entry_def)

lemma record_failure_gate:
  "gate_consistent (H k) \<Longrightarrow> gate_consistent (fst (record_failure cfg key t1 t2 msg H) k)"
  by (auto simp: record_failure_def gate_consistent_def Let_def split: sum.splits if_splits)

lemma reset_backoff_gate:
  "gate_consistent (H k) \<Longrightarrow> gate_consistent (reset_backoff key H k)"
  by (auto simp: reset_backoff_def gate_consistent_def split: if_splits)

lemma outer_handler_gate:
  "gate_consistent (H k) \<Longrightarrow> gate_consistent (fst (outer_handler cfg clk key drv e H) k)"
  using record_failure_gate[of H k cfg key "t_outer_err clk" "t_outer_next clk"
      "''reconnect error: '' @ exc_msg e"]
  by (auto simp: outer_handler_def split: prod.splits option.splits)

lemma recreate_gate:
  "gate_consistent (H k) \<Longrightarrow> gate_consistent (fst (recreate cfg clk key drv made H) k)"
proof -
  assume g: "gate_consistent (H k)"
  show ?thesis
  proof (cases made)
    case (Inr d)
    then show ?thesis using g reset_backoff_gate[of H k key]
      by (simp add: recreate_def Let_def)
  next
    case (Inl e)
    obtain H' r where rf: "record_failure cfg key (t_recreate_err clk) (t_recreate_next clk)
                  (''recreate error: '' @ exc_msg e) H = (H', r)" by fastforce
    have g': "gate_consistent (H' k)"
      using g record_failure_gate[of H k cfg key "t_recreate_err clk" "t_recreate_next clk"
          "''recreate error: '' @ exc_msg e"] rf by simp
    show ?thesis using Inl rf g' outer_handler_gate[of H' k]
      by (simp add: recreate_def split: option.splits)
  qed
qed

lemma connect_or_recreate_gate:
  "gate_consistent (H k) \<Longrightarrow>
   gate_consistent (fst (connect_or_recreate cfg clk key drv made H) k)"
  by (simp add: connect_or_recreate_def Let_def reset_backoff_gate recreate_gate)

lemma try_reconnect_helper_gate:
  "gate_consistent (H k) \<Longrightarrow>
   gate_consistent (fst (try_reconnect_helper cfg clk drv made key H) k)"
proof -
  assume g: "gate_consistent (H k)"
  obtain H' r where rf: "record_failure cfg key (t_forced_err clk) (t_forced_next clk)
                ''forced reconnect failure (test)'' H = (H', r)" by fastforce
  have g': "gate_consistent (H' k)"
    using g record_failure_gate[of H k cfg key "t_forced_err clk" "t_forced_next clk"
        "''forced reconnect failure (test)''"] rf by simp
  show ?thesis using g rf g'
    by (simp add: try_reconnect_helper_def outer_handler_gate connect_or_recreate_gate
        split: option.splits)
qed

lemma read_plc_tags_gate:
  "gate_consistent (H k) \<Longrightarrow> gate_consistent (read_plc_tags key now stop plc body H k)"
  by (auto simp: read_plc_tags_def gate_consistent_def split: read_body.splits if_splits)

text \<open>
  Claim C3, amended: every reconnect tick (whatever it returns or raises) and every
  path of the two read workers preserve, for every health entry, that \<open>fail_count\<close>
  is not negative and that \<open>fail_count == 0\<close> implies \<open>next_attempt == 0\<close>. Nothing
  is promised about \<open>last_backoff\<close>, which keeps the last recorded delay.
\<close>

theorem gate_consistent_preserved:
  assumes "\<forall>k. gate_consistent (H k)"
  shows "(\<forall>k. gate_consistent (fst (try_reconnect_helper cfg clk drv made key H) k)) \<and>
         (\<forall>k. gate_consistent (read_compactlogix_tags now stop plc body H k)) \<and>
         (\<forall>k. gate_consistent (read_slc500_tags now stop plc body H k))"
  using assms
  by (simp add: try_reconnect_helper_gate read_plc_tags_gate read_compactlogix_tags_def
      read_slc500_tags_def)

text \<open>Witness for C3 (amended): the table after the failed reconnect of the test.\<close>

theorem gate_consistent_preserved_witness:
  "(\<forall>k. gate_consistent (fst first_tick k)) \<and>
   (\<forall>k. gate_consistent
          (fst (try_reconnect_helper default_config (clock_at 102) (Some connected_driver)
                  (Inl (PyExc DriverError ''unused'')) Compactlogix (fst first_tick)) k)) \<and>
   (\<forall>k. gate_consistent
          (read_compactlogix_tags 102 False (Some connected_driver) (ReadRaised ''boom'')
             (fst first_tick) k)) \<and>
   (\<forall>k. gate_consistent
          (read_slc500_tags 102 False (Some connected_driver) ReadCompleted (fst first_tick) k))"
proof -
  have h: "\<forall>k. gate_consistent (fst first_tick k)"
    by (simp add: first_tick_value gate_consistent_def initial_entry_def)
  show ?thesis
    using h gate_consistent_preserved[OF h, of default_config "clock_at 102"
        "Some connected_driver" "Inl (PyExc DriverError ''unused'')" Compactlogix 102 False
        "Some connected_driver" "ReadRaised ''boom''"]
      gate_consistent_preserved[OF h, of default_config "clock_at 102"
        "Some connected_driver" "Inl (PyExc DriverError ''unused'')" Compactlogix 102 False
        "Some connected_driver" ReadCompleted]
    by blast
qed

subsection \<open>Recorded backoffs stay positive\<close>

lemma record_failure_other:
  "k \<noteq> key \<Longrightarrow> fst (record_failure cfg key t1 t2 msg H) k = H k"
  by (auto simp: record_failure_def Let_def split: sum.splits)

lemma record_failure_ok:
  assumes "backoff_recorded_ok cfg (H k)"
  shows "backoff_recorded_ok cfg (fst (record_failure cfg key t1 t2 msg H) k) \<and>
         (k = key \<longrightarrow> last_backoff (fst (record_failure cfg key t1 t2 msg H) k) \<noteq> None)"
proof (cases "k = key")
  case False
  then show ?thesis using assms by (simp add: record_failure_other)
next
  case True
  show ?thesis
  proof (cases "compute_backoff_delay cfg (fail_count (H key) + 1)")
    case (Inr d)
    have "positive_config cfg \<longrightarrow> 0 < d"
      using compute_backoff_delay_pos[of cfg "fail_count (H key) + 1" d] Inr assms True
      by (simp add: backoff_recorded_ok_def)
    then show ?thesis using True Inr assms
      by (auto simp: record_failure_def Let_def backoff_recorded_ok_def)
  next
    case (Inl e)
    have "\<not> fail_count (H key) + 1 \<le> 1024"
      using compute_backoff_delay_small[of "fail_count (H key) + 1" cfg] Inl by auto
    then obtain b where "last_backoff (H key) = Some b"
      using assms True by (auto simp: backoff_recorded_ok_def split: option.splits)
    then show ?thesis using True Inl assms
      by (auto simp: record_failure_def Let_def backoff_recorded_ok_def)
  qed
qed

lemma reset_backoff_ok:
  "backoff_recorded_ok cfg (H k) \<Longrightarrow> backoff_recorded_ok cfg (reset_backoff key H k)"
  by (auto simp: reset_backoff_def backoff_recorded_ok_def split: option.splits)

lemma reset_backoff_count: "fail_count (reset_backoff key H key) = 0"
  by (simp add: reset_backoff_def)

lemma reset_backoff_last: "last_backoff (reset_backoff key H k) = last_backoff (H k)"
  by (simp add: reset_backoff_def)

lemma tick_post_recorded:
  "\<forall>k. backoff_recorded_ok cfg (H k) \<Longrightarrow> last_backoff (H key) \<noteq> None \<Longrightarrow> tick_post cfg key (H, r)"
  by (auto simp: tick_post_def)

lemma tick_post_reset:
  "\<forall>k. backoff_recorded_ok cfg (H k) \<Longrightarrow> tick_post cfg key (reset_backoff key H, r)"
  by (simp add: tick_post_def reset_backoff_ok reset_backoff_count)

lemma outer_handler_post:
  assumes "\<forall>k. backoff_recorded_ok cfg (H k)"
  shows "tick_post cfg key (outer_handler cfg clk key drv e H)"
proof -
  obtain H' r where rf: "record_failure cfg key (t_outer_err clk) (t_outer_next clk)
                (''reconnect error: '' @ exc_msg e) H = (H', r)" by fastforce
  have "\<forall>k. backoff_recorded_ok cfg (H' k)" and "last_backoff (H' key) \<noteq> None"
    using assms rf record_failure_ok[of cfg H _ key "t_outer_err clk" "t_outer_next clk"
        "''reconnect error: '' @ exc_msg e"] by auto
  then show ?thesis using rf
    by (auto simp: outer_handler_def tick_post_def split: option.splits)
qed

lemma recreate_post:
  assumes "\<forall>k. backoff_recorded_ok cfg (H k)" "\<not> drv_connected drv"
  shows "tick_post cfg key (recreate cfg clk key drv made H)"
proof (cases made)
  case (Inr d)
  then show ?thesis using assms(1)
    by (auto simp: recreate_def Let_def tick_post_def reset_backoff_ok reset_backoff_count)
next
  case (Inl e)
  obtain H' r where rf: "record_failure cfg key (t_recreate_err clk) (t_recreate_next clk)
                (''recreate error: '' @ exc_msg e) H = (H', r)" by fastforce
  have ok': "\<forall>k. backoff_recorded_ok cfg (H' k)" and rec': "last_backoff (H' key) \<noteq> None"
    using assms rf record_failure_ok[of cfg H _ key "t_recreate_err clk" "t_recreate_next clk"
        "''recreate error: '' @ exc_msg e"] by auto
  show ?thesis
  proof (cases r)
    case None
    then show ?thesis using Inl rf tick_post_recorded[OF ok' rec']
      by (simp add: recreate_def)
  next
    case (Some e')
    then show ?thesis using Inl rf outer_handler_post[OF ok']
      by (simp add: recreate_def)
  qed
qed

lemma connect_or_recreate_post:
  assumes "\<forall>k. backoff_recorded_ok cfg (H k)"
  shows "tick_post cfg key (connect_or_recreate cfg clk key drv made H)"
proof (cases "drv_connected drv")
  case True
  then show ?thesis using tick_post_reset[OF assms] by (simp add: connect_or_recreate_def)
next
  case False
  show ?thesis
  proof (cases "drv_has_open drv")
    case True
    show ?thesis
    proof (cases "drv_connected (drv_open drv)")
      case True
      then show ?thesis using False \<open>drv_has_open drv\<close> tick_post_reset[OF assms]
        by (simp add: connect_or_recreate_def)
    next
      case nc: False
      then show ?thesis using False True recreate_post[OF assms nc]
        by (simp add: connect_or_recreate_def)
    qed
  next
    case nh: False
    then show ?thesis using False recreate_post[OF assms False]
      by (simp add: connect_or_recreate_def)
  qed
qed

lemma try_reconnect_helper_post:
  assumes "\<forall>k. backoff_recorded_ok cfg (H k)" "0 \<le> t_now clk"
  shows "tick_post cfg key (try_reconnect_helper cfg clk drv made key H)"
proof (cases "t_now clk < next_attempt (H key)")
  case True
  then have "last_backoff (H key) \<noteq> None"
    using assms by (auto simp: backoff_recorded_ok_def split: option.splits dest!: spec[of _ key])
  then show ?thesis using True tick_post_recorded[OF assms(1)]
    by (simp add: try_reconnect_helper_def)
next
  case False
  obtain H' r where rf: "record_failure cfg key (t_forced_err clk) (t_forced_next clk)
                ''forced reconnect failure (test)'' H = (H', r)" by fastforce
  have ok': "\<forall>k. backoff_recorded_ok cfg (H' k)"
    using assms rf record_failure_ok[of cfg H _ key "t_forced_err clk" "t_forced_next clk"
        "''forced reconnect failure (test)''"] by auto
  show ?thesis using False rf outer_handler_post[OF ok']
      connect_or_recreate_post[OF ok'] connect_or_recreate_post[OF assms(1)]
    by (simp add: try_reconnect_helper_def split: option.splits)
qed

lemma reset_backoff_other: "k \<noteq> key \<Longrightarrow> reset_backoff key H k = H k"
  by (simp add: reset_backoff_def)

lemma outer_handler_other:
  "k \<noteq> key \<Longrightarrow> fst (outer_handler cfg clk key drv e H) k = H k"
  using record_failure_other[of k key cfg "t_outer_err clk" "t_outer_next clk"
      "''reconnect error: '' @ exc_msg e" H]
  by (auto simp: outer_handler_def split: prod.splits option.splits)

lemma recreate_other:
  "k \<noteq> key \<Longrightarrow> fst (recreate cfg clk key drv made H) k = H k"
proof (cases made)
  case (Inr d)
  assume "k \<noteq> key"
  then show ?thesis using Inr by (simp add: recreate_def Let_def reset_backoff_other)
next
  case (Inl e)
  assume ne: "k \<noteq> key"
  obtain H' r where rf: "record_failure cfg key (t_recreate_err clk) (t_recreate_next clk)
                (''recreate error: '' @ exc_msg e) H = (H', r)" by fastforce
  have "H' k = H k"
    using record_failure_other[OF ne, of cfg "t_recreate_err clk" "t_recreate_next clk"
        "''recreate error: '' @ exc_msg e" H] rf by simp
  then show ?thesis using Inl rf outer_handler_other[OF ne, of cfg clk drv _ H']
    by (simp add: recreate_def split: option.splits)
qed

lemma connect_or_recreate_other:
  "k \<noteq> key \<Longrightarrow> fst (connect_or_recreate cfg clk key drv made H) k = H k"
  by (simp add: connect_or_recreate_def Let_def reset_backoff_other recreate_other)

lemma try_reconnect_helper_other:
  "k \<noteq> key \<Longrightarrow> fst (try_reconnect_helper cfg clk drv made key H) k = H k"
proof -
  assume ne: "k \<noteq> key"
  obtain H' r where rf: "record_failure cfg key (t_forced_err clk) (t_forced_next clk)
                ''forced reconnect failure (test)'' H = (H', r)" by fastforce
  have "H' k = H k"
    using record_failure_other[OF ne, of cfg "t_forced_err clk" "t_forced_next clk"
        "''forced reconnect failure (test)''" H] rf by simp
  then show ?thesis
    using rf
    by (simp add: try_reconnect_helper_def outer_handler_other[OF ne]
        connect_or_recreate_other[OF ne] split: option.splits)
qed

lemma read_plc_tags_other:
  "k \<noteq> key \<Longrightarrow> read_plc_tags key now stop plc body H k = H k"
  by (auto simp: read_plc_tags_def split: read_body.splits)

lemma read_plc_tags_ok:
  assumes "backoff_recorded_ok cfg (H key)"
    and "last_backoff (H key) = None \<and> fail_count (H key) = 1 \<longrightarrow> \<not> drv_connected plc"
  shows "backoff_recorded_ok cfg (read_plc_tags key now stop plc body H key)"
  using assms
  by (auto simp: read_plc_tags_def backoff_recorded_ok_def split: read_body.splits option.splits)

lemma reachable_poll_invariant:
  assumes "reachable cfg g"
  shows "poll_invariant cfg g k"
  using assms
proof (induction arbitrary: k rule: reachable.induct)
  case (start d)
  show ?case by (simp add: poll_invariant_def backoff_recorded_ok_def initial_entry_def)
next
  case (prepopulate g t1 t2)
  have ok: "backoff_recorded_ok cfg (health g k)" using prepopulate.IH[of k]
    by (simp add: poll_invariant_def)
  show ?case
    using prepopulate.IH[of k] ok
      record_failure_ok[of cfg "health g" k Compactlogix t1 t2 "''forced reconnect failure (test)''"]
    by (cases "k = Compactlogix") (auto simp: poll_invariant_def record_failure_other)
next
  case (tick g key clk made H' r d')
  have ok: "\<forall>k. backoff_recorded_ok cfg (health g k)" using tick.IH
    by (simp add: poll_invariant_def)
  have post: "tick_post cfg key (H', r)"
    using try_reconnect_helper_post[OF ok tick.hyps(3), of key "held g key" made] tick.hyps(4)
    by simp
  show ?case
  proof (cases "k = key")
    case True
    then show ?thesis using post by (auto simp: poll_invariant_def tick_post_def)
  next
    case False
    have "H' k = health g k"
      using try_reconnect_helper_other[OF False, of cfg clk "held g key" made "health g"] tick.hyps(4)
      by simp
    then show ?thesis using False tick.IH[of k] by (simp add: poll_invariant_def)
  qed
next
  case (read_compactlogix g now stop_set body)
  show ?case
  proof (cases "k = Compactlogix")
    case True
    then show ?thesis
      using read_compactlogix.IH[of Compactlogix] read_compactlogix.hyps(2)
        read_plc_tags_ok[of cfg "health g" Compactlogix "held g Compactlogix" now stop_set body]
      by (simp add: poll_invariant_def read_compactlogix_tags_def)
  next
    case False
    then show ?thesis using read_compactlogix.IH[of k]
      by (simp add: poll_invariant_def read_compactlogix_tags_def read_plc_tags_other)
  qed
next
  case (read_slc500 g now stop_set body)
  show ?case
  proof (cases "k = Slc500")
    case True
    then show ?thesis
      using read_slc500.IH[of Slc500] read_slc500.hyps(2)
        read_plc_tags_ok[of cfg "health g" Slc500 "held g Slc500" now stop_set body]
      by (simp add: poll_invariant_def read_slc500_tags_def)
  next
    case False
    then show ?thesis using read_slc500.IH[of k]
      by (simp add: poll_invariant_def read_slc500_tags_def read_plc_tags_other)
  qed
next
  case (driver_change g key d')
  then show ?case using driver_change.IH[of k] by (auto simp: poll_invariant_def)
next
  case (poller_stopped g key)
  then show ?case using poller_stopped.IH[of k] by (auto simp: poll_invariant_def)
qed


lemma after_first_tick_reachable: "reachable default_config after_first_tick"
proof -
  have s: "reachable default_config started"
    unfolding started_def by (rule reachable.start)
  have "reachable default_config
          (started\<lparr>health := fst first_tick,
             held := (held started)(Compactlogix :=
                        (case snd first_tick of Inr d \<Rightarrow> d | Inl e \<Rightarrow> None)),
             ticked := (ticked started)(Compactlogix := True)\<rparr>)"
  proof (rule reachable.tick[OF s])
    show "\<not> ticked started Compactlogix" by (simp add: started_def)
    show "0 \<le> t_now (clock_at 100)" by (simp add: clock_at_def)
    show "try_reconnect_helper default_config (clock_at 100) (held started Compactlogix)
            (Inl (PyExc DriverError ''create-failed'')) Compactlogix (health started)
          = (fst first_tick, snd first_tick)"
      by (simp add: first_tick_def)
  qed
  then show ?thesis by (simp add: after_first_tick_def)
qed

lemma get_hmi_health_plc:
  "plc_health (get_hmi_health cfg now upd H) k = snapshot_entry cfg (H k)"
  by (simp add: get_hmi_health_def Let_def)

lemma get_hmi_health_status:
  "(status (get_hmi_health cfg now upd H) = ''ok''
      \<longleftrightarrow> last_plc_update (get_hmi_health cfg now upd H) \<noteq> 0
          \<and> (\<exists>a. age_seconds (get_hmi_health cfg now upd H) = Some a \<and> a < 5))
   \<and> last_plc_update (get_hmi_health cfg now upd H) = upd"
  by (simp add: get_hmi_health_def Let_def)


lemma get_hmi_health_age:
  "timestamp (get_hmi_health cfg now upd H) = now
   \<and> age_seconds (get_hmi_health cfg now upd H) = (if upd = 0 then None else Some (now - upd))"
  by (simp add: get_hmi_health_def Let_def)

lemma tick_connected_value:
  "tick_connected cfg = (health running, Inr (Some connected_driver))"
  by (auto simp: tick_connected_def running_def try_reconnect_helper_def connect_or_recreate_def
      reset_backoff_def clock_at_def connected_driver_def drv_connected_def initial_entry_def)

lemma after_failed_read_health:
  "health (after_failed_read cfg) =
     (\<lambda>k. initial_entry\<lparr>ok := True\<rparr>)
       (Slc500 := initial_entry\<lparr>ok := False, last_error := Some ''timed out'', fail_count := 1,
                                 recent_errors := [(101, ''timed out'')]\<rparr>)"
  by (simp add: after_failed_read_def after_tick_connected_def tick_connected_value running_def
      read_slc500_tags_def read_plc_tags_def connected_driver_def drv_connected_def
      initial_entry_def deque_append_def)

lemma after_failed_read_reachable: "reachable cfg (after_failed_read cfg)"
proof -
  have s: "reachable cfg running"
    unfolding running_def by (rule reachable.start)
  have t: "reachable cfg (after_tick_connected cfg)"
    unfolding after_tick_connected_def
  proof (rule reachable.tick[OF s])
    show "\<not> ticked running Slc500" by (simp add: running_def)
    show "0 \<le> t_now (clock_at 100)" by (simp add: clock_at_def)
    show "try_reconnect_helper cfg (clock_at 100) (held running Slc500)
            (Inr connected_driver) Slc500 (health running)
          = (fst (tick_connected cfg), snd (tick_connected cfg))"
      by (simp add: tick_connected_def)
  qed
  have "ticked (after_tick_connected cfg) Slc500" by (simp add: after_tick_connected_def)
  from reachable.read_slc500[OF t this, of 101 False "ReadRaised ''timed out''"]
  show ?thesis by (simp add: after_failed_read_def)
qed

lemma snapshot_entry_positive:
  assumes "backoff_recorded_ok cfg h" "positive_config cfg"
    "0 < snap_fail_count (snapshot_entry cfg h)"
  shows "0 < snap_last_backoff (snapshot_entry cfg h)"
proof (cases "last_backoff h")
  case (Some b)
  then show ?thesis using assms(1,2) by (simp add: snapshot_entry_def backoff_recorded_ok_def)
next
  case None
  then have one: "fail_count h = 1" using assms(1,3)
    by (simp add: snapshot_entry_def backoff_recorded_ok_def)
  then show ?thesis using None assms(2)
    by (simp add: snapshot_entry_def compute_backoff_delay_def float_of_pow2_def
        positive_config_def)
qed

text \<open>
  Claim C8. In every response of \<open>GET /api/v1/hmi/health\<close>, each PLC entry reports
  the stored \<open>last_backoff\<close> when one was recorded and
  \<open>compute_backoff_delay(fail_count)\<close> when none was; the reported \<open>last_backoff\<close>
  is positive whenever the reported \<open>fail_count\<close> is (default base and maximum);
  and \<open>status\<close> is \<open>"ok"\<close> exactly when \<open>last_plc_update\<close> is not zero and
  \<open>age_seconds\<close> is below 5.

  The first part is about the handler alone: for every configuration, every clock
  reading \<open>now\<close>, every value \<open>upd\<close> of \<open>plc_last_update\<close> and every health table
  \<open>H\<close>, whether the poll loop can produce it or not, the entry reports the recorded
  backoff, or else whatever \<open>compute_backoff_delay\<close> returns for the stored
  \<open>fail_count\<close>, which it reports unchanged. Where that call raises, from
  \<open>fail_count = 1025\<close> on (\<open>compute_backoff_delay_raises_iff\<close>), the handler's
  \<open>except\<close> branch reports \<open>0.0\<close>. The second part is about the tables \<open>health g\<close> of
  the states \<open>g\<close> the poll loop reaches: there the fallback always returns, under any
  configuration, and with a positive base and maximum (the defaults 1 and 60 are) a
  positive reported \<open>fail_count\<close> comes with a positive reported \<open>last_backoff\<close>. The
  third part is the status, again for every table and configuration: \<open>age_seconds\<close>
  is \<open>null\<close> when \<open>plc_last_update\<close> is zero and \<open>now - plc_last_update\<close> otherwise.
\<close>

theorem health_reports_backoff:
  "(\<forall>k. (\<forall>b. last_backoff (H k) = Some b \<longrightarrow>
              snap_last_backoff (plc_health (get_hmi_health cfg now upd H) k) = b)
      \<and> (last_backoff (H k) = None \<longrightarrow>
            (\<forall>d. compute_backoff_delay cfg (fail_count (H k)) = Inr d \<longrightarrow>
                 snap_last_backoff (plc_health (get_hmi_health cfg now upd H) k) = d)
          \<and> (\<forall>e. compute_backoff_delay cfg (fail_count (H k)) = Inl e \<longrightarrow>
                 snap_last_backoff (plc_health (get_hmi_health cfg now upd H) k) = 0))
      \<and> snap_fail_count (plc_health (get_hmi_health cfg now upd H) k) = fail_count (H k))
   \<and> (reachable cfg g \<longrightarrow>
        (\<forall>k. last_backoff (health g k) = None \<longrightarrow>
              (\<exists>d. compute_backoff_delay cfg (fail_count (health g k)) = Inr d))
      \<and> (positive_config cfg \<longrightarrow>
           (\<forall>k. 0 < snap_fail_count (plc_health (get_hmi_health cfg now upd (health g)) k) \<longrightarrow>
                 0 < snap_last_backoff (plc_health (get_hmi_health cfg now upd (health g)) k))))
   \<and> (status (get_hmi_health cfg now upd H) = ''ok''
         \<longleftrightarrow> last_plc_update (get_hmi_health cfg now upd H) \<noteq> 0
             \<and> (\<exists>a. age_seconds (get_hmi_health cfg now upd H) = Some a \<and> a < 5))
   \<and> last_plc_update (get_hmi_health cfg now upd H) = upd
   \<and> timestamp (get_hmi_health cfg now upd H) = now
   \<and> age_seconds (get_hmi_health cfg now upd H) = (if upd = 0 then None else Some (now - upd))"
proof -
  have reporting: "\<forall>k. (\<forall>b. last_backoff (H k) = Some b \<longrightarrow>
              snap_last_backoff (plc_health (get_hmi_health cfg now upd H) k) = b)
      \<and> (last_backoff (H k) = None \<longrightarrow>
            (\<forall>d. compute_backoff_delay cfg (fail_count (H k)) = Inr d \<longrightarrow>
                 snap_last_backoff (plc_health (get_hmi_health cfg now upd H) k) = d)
          \<and> (\<forall>e. compute_backoff_delay cfg (fail_count (H k)) = Inl e \<longrightarrow>
                 snap_last_backoff (plc_health (get_hmi_health cfg now upd H) k) = 0))
      \<and> snap_fail_count (plc_health (get_hmi_health cfg now upd H) k) = fail_count (H k)"
    by (simp add: get_hmi_health_plc snapshot_entry_def)
  have reached: "reachable cfg g \<longrightarrow>
        (\<forall>k. last_backoff (health g k) = None \<longrightarrow>
              (\<exists>d. compute_backoff_delay cfg (fail_count (health g k)) = Inr d))
      \<and> (positive_config cfg \<longrightarrow>
           (\<forall>k. 0 < snap_fail_count (plc_health (get_hmi_health cfg now upd (health g)) k) \<longrightarrow>
                 0 < snap_last_backoff (plc_health (get_hmi_health cfg now upd (health g)) k)))"
  proof
    assume r: "reachable cfg g"
    have inv: "\<And>k. backoff_recorded_ok cfg (health g k)"
      using reachable_poll_invariant[OF r] by (simp add: poll_invariant_def)
    have returns: "\<forall>k. last_backoff (health g k) = None \<longrightarrow>
              (\<exists>d. compute_backoff_delay cfg (fail_count (health g k)) = Inr d)"
    proof (intro allI impI)
      fix k
      assume "last_backoff (health g k) = None"
      then have "fail_count (health g k) \<le> 1024"
        using inv[of k] by (simp add: backoff_recorded_ok_def)
      then show "\<exists>d. compute_backoff_delay cfg (fail_count (health g k)) = Inr d"
        by (rule compute_backoff_delay_small)
    qed
    have positive: "positive_config cfg \<longrightarrow>
           (\<forall>k. 0 < snap_fail_count (plc_health (get_hmi_health cfg now upd (health g)) k) \<longrightarrow>
                 0 < snap_last_backoff (plc_health (get_hmi_health cfg now upd (health g)) k))"
      unfolding get_hmi_health_plc using snapshot_entry_positive[OF inv] by blast
    show "(\<forall>k. last_backoff (health g k) = None \<longrightarrow>
              (\<exists>d. compute_backoff_delay cfg (fail_count (health g k)) = Inr d))
      \<and> (positive_config cfg \<longrightarrow>
           (\<forall>k. 0 < snap_fail_count (plc_health (get_hmi_health cfg now upd (health g)) k) \<longrightarrow>
                 0 < snap_last_backoff (plc_health (get_hmi_health cfg now upd (health g)) k)))"
      using returns positive by (rule conjI)
  qed
  show ?thesis
    using reporting reached get_hmi_health_status[of cfg now upd H]
      get_hmi_health_age[of cfg now upd H]
    by blast
qed

text \<open>
  Witness for C8, with base 2 and maximum 60. The table in which the writes were
  missed reports \<open>min(2 * 2^2, 60) = 8\<close> for three failures and \<open>0\<close> for 1025. The
  state after the failed read is reached by the poll loop; its SLC 500 entry has
  one failure and no recorded backoff, and the response computes and reports 2.
  The response is served at 104, three seconds after the last update at 101.
\<close>

theorem health_reports_backoff_witness:
  "last_backoff (missed_write Compactlogix) = None \<and>
   compute_backoff_delay slow_config (fail_count (missed_write Compactlogix)) = Inr 8 \<and>
   snap_last_backoff (plc_health (get_hmi_health slow_config 104 101 missed_write) Compactlogix) = 8 \<and>
   snap_fail_count (plc_health (get_hmi_health slow_config 104 101 missed_write) Compactlogix) = 3 \<and>
   last_backoff (missed_write Slc500) = None \<and>
   compute_backoff_delay slow_config (fail_count (missed_write Slc500))
     = Inl (PyExc OverflowError ''int too large to convert to float'') \<and>
   snap_last_backoff (plc_health (get_hmi_health slow_config 104 101 missed_write) Slc500) = 0 \<and>
   reachable slow_config (after_failed_read slow_config) \<and>
   positive_config slow_config \<and>
   last_backoff (health (after_failed_read slow_config) Slc500) = None \<and>
   compute_backoff_delay slow_config (fail_count (health (after_failed_read slow_config) Slc500))
     = Inr 2 \<and>
   snap_fail_count (plc_health (get_hmi_health slow_config 104 101
                      (health (after_failed_read slow_config))) Slc500) = 1 \<and>
   snap_last_backoff (plc_health (get_hmi_health slow_config 104 101
                        (health (after_failed_read slow_config))) Slc500) = 2 \<and>
   status (get_hmi_health slow_config 104 101 missed_write) = ''ok'' \<and>
   last_plc_update (get_hmi_health slow_config 104 101 missed_write) = 101 \<and>
   age_seconds (get_hmi_health slow_config 104 101 missed_write) = Some 3"
  using health_reports_backoff[of missed_write slow_config 104 101 "after_failed_read slow_config"]
    after_failed_read_reachable[of slow_config]
  by (simp add: after_failed_read_health missed_write_def slow_config_def default_config_def
      positive_config_def initial_entry_def compute_backoff_delay_def float_of_pow2_def
      get_hmi_health_def snapshot_entry_def Let_def)

section \<open>Properties of the tag store\<close>

lemma lower_bool: "lower ''Boolean'' = ''boolean''"
  by (simp add: lower_def lower_char_def)

lemma add_tag_default:
  assumes "hash_key (tag_id tag) = Inr k" "data_type tag = VStr dt"
  shows "store_values (fst (add_tag tag VNone s)) k =
           Some (if startswith (lower dt) ''bool'' then VBool False
                 else if str_contains ''int'' (lower dt) then VInt 0
                 else float_zero)"
  using assms by (cases "dt = []") (simp_all add: add_tag_def py_lower_def Let_def lower_def)

text \<open>
  Claim C5. For every tag added with no initial value, \<open>add_tag\<close> stores the default
  of its type: \<open>false\<close> for a Boolean, \<open>0\<close> for an integer type, \<open>0.0\<close> for the other
  numeric types, and the empty string for a String. The code has no branch for
  strings: the data type \<open>String\<close> does not start with \<open>bool\<close> and does not contain
  \<open>int\<close>, so the tag gets the float \<open>0.0\<close> of the last branch, which the source
  comments as the default of the other numeric types (Double/Float).
\<close>

theorem add_tag_string_default:
  "add_tag (plain_tag ''S1'' ''String'') VNone empty_store =
     (\<lparr>store_tags = [KStr ''S1'' \<mapsto> plain_tag ''S1'' ''String''],
       store_values = [KStr ''S1'' \<mapsto> VFloat (Dec False 0 (- 1))]\<rparr>, None)"
  by (simp add: add_tag_def plain_tag_def empty_store_def py_lower_def lower_def lower_char_def
      startswith_def float_zero_def Let_def)

section \<open>Properties of the REST handlers\<close>




lemma first_post_result:
  "api_add_tag ip first_post (Some empty_store) =
     (Inr \<lparr>http_status = 201, http_body = VDict [(''created'', VList [VStr ''T1''])]\<rparr>,
      Some after_first_post)"
  by (simp add: api_add_tag_def first_post_def py_or_def has_tags_def py_iter_def Let_def
      build_tag_def dict_get_def float_one_def float_zero_def add_tag_def initial_value_of_def
      json_response_def empty_store_def after_first_post_def posted_tag_def)

text \<open>
  Claim C4. For every payload in which neither \<open>tag_id\<close> nor \<open>name\<close> is a non-empty
  string, \<open>POST /api/v1/tags\<close> and \<open>PUT /api/v1/tags/import\<close> answer 400 with an
  error body and leave the store unchanged. The handler of \<open>POST\<close> does not validate:
  for the body \<open>{}\<close>, on any store, it builds a tag whose id and name are \<open>None\<close>,
  stores it under the key \<open>None\<close> with the value \<open>0.0\<close>, and answers 201 with
  \<open>{"created": [null]}\<close>.
\<close>

theorem api_add_tag_accepts_nameless:
  "api_add_tag ip (VDict []) (Some s) =
     (Inr \<lparr>http_status = 201, http_body = VDict [(''created'', VList [VNone])]\<rparr>,
      Some (s\<lparr>store_tags := (store_tags s)(KNone \<mapsto> nameless_tag),
              store_values := (store_values s)(KNone \<mapsto> VFloat (Dec False 0 (- 1)))\<rparr>))"
  by (simp add: api_add_tag_def py_or_def has_tags_def py_iter_def Let_def
      build_tag_def dict_get_def float_one_def float_zero_def add_tag_def initial_value_of_def
      json_response_def nameless_tag_def py_lower_def lower_def lower_char_def startswith_def)

text \<open>
  \<open>import_tags\<close> does validate, and answers 400 for a first tag without a usable
  id; but with \<open>replace_all\<close> the store has been cleared by then.
\<close>

lemma import_tags_rejects_first:
  assumes "fst (validate_tag_payload t) = False"
  shows "import_tags ip arg (VDict [(''tags'', VList (t # ts))]) (Some s) =
           (Inr (error_response (snd (validate_tag_payload t)) 400),
            Some (if lower (case arg of None \<Rightarrow> ''false'' | Some a \<Rightarrow> a) \<in> {''1'', ''true'', ''yes''}
                  then clear_tags s else s))"
  using assms
  by (cases "validate_tag_payload t")
     (simp add: import_tags_def py_or_def dict_get_def Let_def)

lemma import_tags_clears_before_validating:
  "import_tags ip (Some ''true'') (VDict [(''tags'', VList [VDict []])]) (Some s) =
     (Inr \<lparr>http_status = 400,
           http_body = VDict [(''error'', VStr ''tag_id or name is required and must be a string'')]\<rparr>,
      Some \<lparr>store_tags = Map.empty, store_values = Map.empty\<rparr>)"
  by (simp add: import_tags_def py_or_def dict_get_def Let_def validate_tag_payload_def
      error_response_def clear_tags_def lower_def lower_char_def)



end
